theory Spec2Isabelle
  imports Main "HOL-Library.Word"
begin

unbundle bit_operations_syntax

section \<open>Go values used by package packetsockdgram\<close>

text \<open>
  Go's \<open>int\<close> is modelled as \<open>int\<close>: every quantity computed below is a sum of a
  16-bit field, a buffer length or the receive call's return value with a constant
  below 64, so no 64-bit overflow can occur.
\<close>

type_synonym byte = "8 word"

text \<open>
  A \<open>[]byte\<close> is either \<open>nil\<close> or a window on a backing array: \<open>Slice xs sp\<close> has
  the visible elements \<open>xs\<close> (so \<open>len = length xs\<close>) followed in the array by the
  spare elements \<open>sp\<close> (so \<open>cap = length xs + length sp\<close>).
\<close>

datatype bytes = NilSlice | Slice "byte list" "byte list"

text \<open>The run-time panics the code can raise.\<close>

datatype panic = IndexOutOfRange | SliceBoundsOutOfRange | NilDereference | TypeAssertion

fun elems :: "bytes \<Rightarrow> byte list" where
  "elems NilSlice = []"
| "elems (Slice xs sp) = xs"

fun storage :: "bytes \<Rightarrow> byte list" where
  "storage NilSlice = []"
| "storage (Slice xs sp) = xs @ sp"

definition len :: "bytes \<Rightarrow> int" where
  "len b = int (length (elems b))"

definition cap :: "bytes \<Rightarrow> int" where
  "cap b = int (length (storage b))"

text \<open>\<open>b[i]\<close>: panics unless \<open>0 \<le> i < len(b)\<close>.\<close>

definition index :: "bytes \<Rightarrow> int \<Rightarrow> panic + byte" where
  "index b i = (if 0 \<le> i \<and> i < len b then Inr (elems b ! nat i) else Inl IndexOutOfRange)"

text \<open>\<open>b[lo:hi]\<close>: panics unless \<open>0 \<le> lo \<le> hi \<le> cap(b)\<close>; a slice of \<open>nil\<close> is \<open>nil\<close>.\<close>

definition slice_range :: "bytes \<Rightarrow> int \<Rightarrow> int \<Rightarrow> panic + bytes" where
  "slice_range b lo hi =
     (if 0 \<le> lo \<and> lo \<le> hi \<and> hi \<le> cap b
      then Inr (case b of
                  NilSlice \<Rightarrow> NilSlice
                | Slice xs sp \<Rightarrow>
                    Slice (take (nat (hi - lo)) (drop (nat lo) (xs @ sp))) (drop (nat hi) (xs @ sp)))
      else Inl SliceBoundsOutOfRange)"

text \<open>\<open>b[lo:]\<close>, that is \<open>b[lo:len(b)]\<close>: panics unless \<open>0 \<le> lo \<le> len(b)\<close>.\<close>

definition slice_from :: "bytes \<Rightarrow> int \<Rightarrow> panic + bytes" where
  "slice_from b lo =
     (if 0 \<le> lo \<and> lo \<le> len b
      then Inr (case b of
                  NilSlice \<Rightarrow> NilSlice
                | Slice xs sp \<Rightarrow> Slice (drop (nat lo) xs) sp)
      else Inl SliceBoundsOutOfRange)"

text \<open>Sequencing of steps that may panic: the first panic ends the call.\<close>

definition andThen :: "panic + 'a \<Rightarrow> ('a \<Rightarrow> panic + 'b) \<Rightarrow> panic + 'b" where
  "andThen m f = (case m of Inl e \<Rightarrow> Inl e | Inr x \<Rightarrow> f x)"

text \<open>
  \<open>binary.BigEndian.Uint16\<close> of the standard library:
  \<^verbatim>\<open>_ = b[1]; return uint16(b[1]) | uint16(b[0])<<8\<close>
\<close>

definition Uint16 :: "bytes \<Rightarrow> panic + 16 word" where
  "Uint16 b =
     andThen (index b 1) (\<lambda>b1.
     andThen (index b 0) (\<lambda>b0.
       Inr (ucast b1 OR push_bit 8 (ucast b0))))"

text \<open>\<open>int(binary.BigEndian.Uint16(b[lo:hi]))\<close>\<close>

definition Uint16_of :: "bytes \<Rightarrow> int \<Rightarrow> int \<Rightarrow> panic + int" where
  "Uint16_of b lo hi =
     andThen (slice_range b lo hi) (\<lambda>s.
     andThen (Uint16 s) (\<lambda>w. Inr (uint w)))"

section \<open>Package errors\<close>

text \<open>
  The eight error values of the package, the error numbers of the system calls, and the
  errors of the external decoders \<open>golang.org/x/net/ipv4\<close> and \<open>golang.org/x/net/ipv6\<close>
  (values of their own, distinct from the package's although the texts coincide).
\<close>

datatype error =
    ErrNotDestPort
  | ErrInvalidConn
  | ErrMissingAddress
  | ErrNilHeader
  | ErrHeaderTooShort
  | ErrNotIpv4
  | ErrNotIpv6
  | ErrPayloadLen
  | Errno nat
  | ipv4_errNilHeader
  | ipv4_errHeaderTooShort
  | ipv4_errExtHeaderTooShort
  | ipv6_errHeaderTooShort

section \<open>Headers\<close>

definition UDPHeaderLen :: int where
  "UDPHeaderLen = 8"

record UdpHeader =
  SourcePort :: int
  DestinationPort :: int
  Length :: int
  Checksum :: int

text \<open>
  \<open>ParseUDPHeader\<close> returns the pair \<open>(*UdpHeader, error)\<close>; a \<open>nil\<close> pointer and a
  \<open>nil\<close> error are \<open>None\<close>.
\<close>

definition ParseUDPHeader :: "bytes \<Rightarrow> panic + (UdpHeader option \<times> error option)" where
  "ParseUDPHeader b =
     (if b = NilSlice then Inr (None, Some ErrNilHeader)
      else if len b < UDPHeaderLen then Inr (None, Some ErrHeaderTooShort)
      else
        andThen (Uint16_of b 0 2) (\<lambda>sp.
        andThen (Uint16_of b 2 4) (\<lambda>dp.
        andThen (Uint16_of b 4 6) (\<lambda>ln.
        andThen (Uint16_of b 6 8) (\<lambda>ck.
          Inr (Some \<lparr>SourcePort = sp, DestinationPort = dp, Length = ln, Checksum = ck\<rparr>,
               None))))))"

text \<open>
  The IP headers come from the external decoders of \<open>golang.org/x/net\<close>, a dependency
  of the package. They are written here as that module decodes on Linux (all fields big
  endian); every byte they read lies below the length each decoder has checked first.
\<close>

definition byte_at :: "bytes \<Rightarrow> nat \<Rightarrow> int" where
  "byte_at b i = uint (elems b ! i)"

definition be16_at :: "bytes \<Rightarrow> nat \<Rightarrow> int" where
  "be16_at b i = byte_at b i * 256 + byte_at b (i + 1)"

text \<open>\<open>net.IPv4(a, b, c, d)\<close>: the 16-byte form of an IPv4 address.\<close>

definition net_IPv4 :: "byte \<Rightarrow> byte \<Rightarrow> byte \<Rightarrow> byte \<Rightarrow> byte list" where
  "net_IPv4 a b c d = replicate 10 0 @ [0xff, 0xff, a, b, c, d]"

record ipv4_Header =
  ipv4_Version :: int
  ipv4_Len :: int
  ipv4_TOS :: int
  ipv4_TotalLen :: int
  ipv4_ID :: int
  ipv4_Flags :: int
  ipv4_FragOff :: int
  ipv4_TTL :: int
  ipv4_Protocol :: int
  ipv4_Checksum :: int
  ipv4_Src :: "byte list"
  ipv4_Dst :: "byte list"
  ipv4_Options :: bytes

definition ipv4_HeaderLen :: int where
  "ipv4_HeaderLen = 20"

definition ipv4_ParseHeader :: "bytes \<Rightarrow> error + ipv4_Header" where
  "ipv4_ParseHeader b =
     (if b = NilSlice then Inl ipv4_errNilHeader
      else if len b < ipv4_HeaderLen then Inl ipv4_errHeaderTooShort
      else
        let hdrlen = uint (elems b ! 0 AND 0x0f) * 4 in
        if len b < hdrlen then Inl ipv4_errExtHeaderTooShort
        else
          let fragoff = be16_at b 6;
              optlen = hdrlen - ipv4_HeaderLen
          in Inr \<lparr>ipv4_Version = uint (drop_bit 4 (elems b ! 0)),
                  ipv4_Len = hdrlen,
                  ipv4_TOS = byte_at b 1,
                  ipv4_TotalLen = be16_at b 2,
                  ipv4_ID = be16_at b 4,
                  ipv4_Flags = fragoff div 8192,
                  ipv4_FragOff = fragoff mod 8192,
                  ipv4_TTL = byte_at b 8,
                  ipv4_Protocol = byte_at b 9,
                  ipv4_Checksum = be16_at b 10,
                  ipv4_Src = net_IPv4 (elems b ! 12) (elems b ! 13) (elems b ! 14) (elems b ! 15),
                  ipv4_Dst = net_IPv4 (elems b ! 16) (elems b ! 17) (elems b ! 18) (elems b ! 19),
                  ipv4_Options =
                    (if 0 < optlen
                     then Slice (take (nat optlen) (drop 20 (elems b))) []
                     else NilSlice)\<rparr>)"

record ipv6_Header =
  ipv6_Version :: int
  ipv6_TrafficClass :: int
  ipv6_FlowLabel :: int
  ipv6_PayloadLen :: int
  ipv6_NextHeader :: int
  ipv6_HopLimit :: int
  ipv6_Src :: "byte list"
  ipv6_Dst :: "byte list"

definition ipv6_HeaderLen :: int where
  "ipv6_HeaderLen = 40"

definition ipv6_ParseHeader :: "bytes \<Rightarrow> error + ipv6_Header" where
  "ipv6_ParseHeader b =
     (if len b < ipv6_HeaderLen then Inl ipv6_errHeaderTooShort
      else Inr \<lparr>ipv6_Version = byte_at b 0 div 16,
                ipv6_TrafficClass = (byte_at b 0 mod 16) * 16 + byte_at b 1 div 16,
                ipv6_FlowLabel = (byte_at b 1 mod 16) * 65536 + byte_at b 2 * 256 + byte_at b 3,
                ipv6_PayloadLen = be16_at b 4,
                ipv6_NextHeader = byte_at b 6,
                ipv6_HopLimit = byte_at b 7,
                ipv6_Src = take 16 (drop 8 (elems b)),
                ipv6_Dst = take 16 (drop 24 (elems b))\<rparr>)"

record IpHeader =
  Ipv4Header :: "ipv4_Header option"
  Ipv6Header :: "ipv6_Header option"

section \<open>The packet reader\<close>

text \<open>
  \<open>syscall.Sockaddr\<close> is an interface; the two implementations the package looks at carry
  a port, every other dynamic type (and the \<open>nil\<close> interface) is \<open>SockaddrOther\<close>.
\<close>

datatype Sockaddr =
    SockaddrInet4 int "byte list"
  | SockaddrInet6 int int "byte list"
  | SockaddrOther

text \<open>\<open>sa.(*syscall.SockaddrInet4).Port\<close> and \<open>sa.(*syscall.SockaddrInet6).Port\<close>\<close>

fun Inet4_Port :: "Sockaddr \<Rightarrow> panic + int" where
  "Inet4_Port (SockaddrInet4 port addr) = Inr port"
| "Inet4_Port _ = Inl TypeAssertion"

fun Inet6_Port :: "Sockaddr \<Rightarrow> panic + int" where
  "Inet6_Port (SockaddrInet6 port zone addr) = Inr port"
| "Inet6_Port _ = Inl TypeAssertion"

record handler =
  fd :: int
  sa :: Sockaddr
  isIpv4 :: bool

text \<open>A \<open>*handler\<close> is \<open>None\<close> when \<open>nil\<close>.\<close>

definition ok :: "handler option \<Rightarrow> bool" where
  "ok c = (c \<noteq> None)"

text \<open>Reading a field through a pointer panics on \<open>nil\<close>.\<close>

definition deref :: "'a option \<Rightarrow> panic + 'a" where
  "deref x = (case x of None \<Rightarrow> Inl NilDereference | Some v \<Rightarrow> Inr v)"

text \<open>
  What a read returns: \<open>(n, h, uh, p, err)\<close>, with \<open>nil\<close> pointers and the \<open>nil\<close> error as
  \<open>None\<close> and the \<open>nil\<close> payload as \<open>NilSlice\<close>.
\<close>

type_synonym result = "int \<times> IpHeader option \<times> UdpHeader option \<times> bytes \<times> error option"

text \<open>The closure computing the payload size in \<open>readFromIpv4\<close>, with \<open>lb = len(b)\<close>.\<close>

definition payloadlen :: "int \<Rightarrow> int \<Rightarrow> int \<Rightarrow> int" where
  "payloadlen TotalLen lb totalHeaderlen =
     (if TotalLen < lb then TotalLen - totalHeaderlen else lb - totalHeaderlen)"

text \<open>
  The receive call is the environment's: \<open>rcv = (n, err)\<close> is what
  \<open>syscall.Recvfrom(hdl.fd, b, syscall.MSG_TRUNC)\<close> returned, and \<open>b\<close> is the caller's
  buffer as that call left it. With \<open>MSG_TRUNC\<close> the kernel reports the real length of the
  datagram, so \<open>n\<close> may exceed \<open>len(b)\<close>.
\<close>

definition readFromIpv4 :: "handler option \<Rightarrow> int \<times> error option \<Rightarrow> bytes \<Rightarrow> panic + result" where
  "readFromIpv4 hdl rcv b =
     andThen (deref hdl) (\<lambda>hv.
     case rcv of
       (n, Some e) \<Rightarrow> Inr (- 1, None, None, NilSlice, Some e)
     | (n, None) \<Rightarrow>
         andThen (index b 0) (\<lambda>b0.
         if b0 \<noteq> 0x45 then Inr (n, None, None, NilSlice, Some ErrNotIpv4)
         else
           let totalHeaderlen = 20 + UDPHeaderLen in
           if n < totalHeaderlen then Inr (n, None, None, NilSlice, Some ErrHeaderTooShort)
           else
             case ipv4_ParseHeader b of
               Inl e \<Rightarrow> Inr (n, None, None, NilSlice, Some e)
             | Inr ipv4h \<Rightarrow>
                 let iph = \<lparr>Ipv4Header = Some ipv4h, Ipv6Header = None\<rparr> in
                 andThen (slice_from b 20) (\<lambda>b20.
                 andThen (ParseUDPHeader b20) (\<lambda>(uh, err).
                 case err of
                   Some e \<Rightarrow> Inr (n, Some iph, None, NilSlice, Some e)
                 | None \<Rightarrow>
                     let pl = payloadlen (ipv4_TotalLen ipv4h) (len b) totalHeaderlen in
                     andThen (slice_range b totalHeaderlen (totalHeaderlen + pl)) (\<lambda>pb.
                     andThen (Inet4_Port (sa hv)) (\<lambda>rcvport.
                     andThen (deref uh) (\<lambda>u.
                     if rcvport \<noteq> DestinationPort u
                     then Inr (n, Some iph, uh, pb, Some ErrNotDestPort)
                     else Inr (n, Some iph, uh, pb, None))))))))"

definition readFromIpv6 :: "handler option \<Rightarrow> int \<times> error option \<Rightarrow> bytes \<Rightarrow> panic + result" where
  "readFromIpv6 hdl rcv b =
     andThen (deref hdl) (\<lambda>hv.
     case rcv of
       (n, Some e) \<Rightarrow> Inr (- 1, None, None, NilSlice, Some e)
     | (n, None) \<Rightarrow>
         andThen (index b 0) (\<lambda>b0.
         if b0 \<noteq> 0x60 then Inr (n, None, None, NilSlice, Some ErrNotIpv6)
         else
           case ipv6_ParseHeader b of
             Inl e \<Rightarrow> Inr (n, None, None, NilSlice, Some e)
           | Inr ipv6h \<Rightarrow>
               let iph = \<lparr>Ipv4Header = None, Ipv6Header = Some ipv6h\<rparr>;
                   startudp6h = ipv6_HeaderLen;
                   endudp6h = startudp6h + UDPHeaderLen
               in
               andThen (slice_from b startudp6h) (\<lambda>b40.
               andThen (ParseUDPHeader b40) (\<lambda>(uh, err).
               case err of
                 Some e \<Rightarrow> Inr (n, Some iph, None, NilSlice, Some e)
               | None \<Rightarrow>
                   let m = ipv6_HeaderLen + ipv6_PayloadLen ipv6h in
                   if n \<noteq> m then Inr (n, Some iph, None, NilSlice, Some ErrPayloadLen)
                   else
                     andThen (slice_range b endudp6h n) (\<lambda>pb.
                     andThen (Inet6_Port (sa hv)) (\<lambda>rcvport.
                     andThen (deref uh) (\<lambda>u.
                     if rcvport \<noteq> DestinationPort u
                     then Inr (n, Some iph, uh, pb, Some ErrNotDestPort)
                     else Inr (n, Some iph, uh, pb, None))))))))"

text \<open>
  \<open>readfrom\<close> dispatches on the family fixed at construction. Only the path taken issues
  a receive call, so one \<open>rcv\<close> serves both branches.
\<close>

definition readfrom :: "handler option \<Rightarrow> int \<times> error option \<Rightarrow> bytes \<Rightarrow> panic + result" where
  "readfrom hdl rcv b =
     (if \<not> ok hdl then Inr (- 1, None, None, NilSlice, Some ErrInvalidConn)
      else
        andThen (deref hdl) (\<lambda>hv.
        if isIpv4 hv then readFromIpv4 hdl rcv b else readFromIpv6 hdl rcv b))"

section \<open>The endpoint\<close>

text \<open>
  \<open>Conn\<close> has fields \<open>fd\<close>, \<open>sa\<close>, \<open>isIpv4\<close> of its own and embeds a \<open>handler\<close> by
  value; \<open>c.fd\<close> is the field of \<open>Conn\<close>, which hides the embedded one.
\<close>

record Conn =
  Conn_fd :: int
  Conn_sa :: Sockaddr
  Conn_isIpv4 :: bool
  Conn_handler :: handler

text \<open>
  \<open>syscall.Close\<close> is the environment's: the kernel's table of open descriptors is the
  state, closing an open descriptor removes it, closing any other fails with \<open>EBADF\<close>.
\<close>

definition EBADF :: nat where
  "EBADF = 9"

definition syscall_Close :: "int \<Rightarrow> int set \<Rightarrow> error option \<times> int set" where
  "syscall_Close d fds = (if d \<in> fds then (None, fds - {d}) else (Some (Errno EBADF), fds))"

text \<open>
  \<open>c.handler.ok()\<close> calls \<open>ok\<close> on the address of the embedded field, which is a valid
  pointer whenever \<open>c\<close> is; taking it through a \<open>nil\<close> \<open>c\<close> panics.
\<close>

definition Close :: "Conn option \<Rightarrow> int set \<Rightarrow> (panic + error option) \<times> int set" where
  "Close c fds =
     (case c of
        None \<Rightarrow> (Inl NilDereference, fds)
      | Some cn \<Rightarrow>
          if \<not> ok (Some (Conn_handler cn)) then (Inr (Some ErrInvalidConn), fds)
          else (case syscall_Close (Conn_fd cn) fds of (e, fds') \<Rightarrow> (Inr e, fds')))"

text \<open>The method \<open>Readfrom_\<close> of \<open>Conn\<close>.\<close>

definition Conn_Readfrom :: "Conn option \<Rightarrow> int \<times> error option \<Rightarrow> bytes \<Rightarrow> panic + result" where
  "Conn_Readfrom c rcv b =
     andThen (deref c) (\<lambda>cn. readfrom (Some (Conn_handler cn)) rcv b)"

section \<open>Slices and big-endian fields\<close>

lemma index_Slice: "i < length xs \<Longrightarrow> index (Slice xs sp) (int i) = Inr (xs ! i)"
  by (simp add: index_def len_def)

lemma index_Slice_0: "0 < length xs \<Longrightarrow> index (Slice xs sp) 0 = Inr (xs ! 0)"
  using index_Slice [of 0 xs sp] by simp

lemma index_Slice_1: "1 < length xs \<Longrightarrow> index (Slice xs sp) 1 = Inr (xs ! 1)"
  using index_Slice [of 1 xs sp] by simp

lemma be16_or_add:
  "(ucast (b1::byte) :: 16 word) OR push_bit 8 (ucast (b0::byte)) = ucast b1 + push_bit 8 (ucast b0)"
proof -
  have "\<not> bit (ucast b1 :: 16 word) k \<or> \<not> bit (push_bit 8 (ucast b0) :: 16 word) k" for k
    by (auto simp: bit_simps dest: bit_imp_le_length)
  then show ?thesis
    by (simp add: disjunctive_add)
qed

lemma be16_word:
  "uint ((ucast (b1::byte) :: 16 word) OR push_bit 8 (ucast (b0::byte))) = uint b0 * 256 + uint b1"
proof -
  have b0: "uint b0 < 256" and b1: "uint b1 < 256"
    using uint_bounded [of b0] uint_bounded [of b1] by simp_all
  have c0: "uint (ucast b0 :: 16 word) = uint b0" and c1: "uint (ucast b1 :: 16 word) = uint b1"
    by (simp_all add: uint_up_ucast is_up)
  have "uint (ucast b1 + push_bit 8 (ucast b0) :: 16 word) = (uint b1 + uint b0 * 256) mod 65536"
    by (simp add: uint_word_ariths push_bit_eq_mult c0 c1 mod_simps)
  also have "\<dots> = uint b1 + uint b0 * 256"
    using b0 b1 by simp
  finally show ?thesis
    by (simp add: be16_or_add)
qed

lemma Uint16_of_Slice:
  assumes "lo + 2 \<le> length xs"
  shows "Uint16_of (Slice xs sp) (int lo) (int lo + 2) = Inr (be16_at (Slice xs sp) lo)"
proof -
  define t where "t = take 2 (drop lo (xs @ sp))"
  define r where "r = drop (lo + 2) (xs @ sp)"
  have s: "slice_range (Slice xs sp) (int lo) (int lo + 2) = Inr (Slice t r)"
    using assms by (simp add: slice_range_def cap_def nat_add_distrib t_def r_def)
  have l: "length t = 2"
    using assms by (simp add: t_def)
  have e0: "t ! 0 = xs ! lo" and e1: "t ! Suc 0 = xs ! Suc lo"
    using assms by (simp_all add: t_def nth_append)
  have "Uint16 (Slice t r) = Inr (ucast (t ! 1) OR push_bit 8 (ucast (t ! 0)))"
    using l by (simp add: Uint16_def andThen_def index_Slice_0 index_Slice_1)
  then show ?thesis
    by (simp add: Uint16_of_def s andThen_def e0 e1 be16_word be16_at_def byte_at_def)
qed

section \<open>The UDP header codec\<close>

text \<open>
  \<open>ParseUDPHeader\<close> on a non-\<open>nil\<close> buffer, in one equation: it never panics, since the
  four sub-slices it takes lie below the length it has checked.
\<close>

lemma ParseUDPHeader_Slice:
  "ParseUDPHeader (Slice xs sp) =
     (if length xs < 8 then Inr (None, Some ErrHeaderTooShort)
      else Inr (Some \<lparr>SourcePort = be16_at (Slice xs sp) 0,
                      DestinationPort = be16_at (Slice xs sp) 2,
                      Length = be16_at (Slice xs sp) 4,
                      Checksum = be16_at (Slice xs sp) 6\<rparr>, None))"
proof (cases "length xs < 8")
  case True
  then show ?thesis
    by (simp add: ParseUDPHeader_def len_def UDPHeaderLen_def)
next
  case False
  then have "Uint16_of (Slice xs sp) 0 2 = Inr (be16_at (Slice xs sp) 0)"
    and "Uint16_of (Slice xs sp) 2 4 = Inr (be16_at (Slice xs sp) 2)"
    and "Uint16_of (Slice xs sp) 4 6 = Inr (be16_at (Slice xs sp) 4)"
    and "Uint16_of (Slice xs sp) 6 8 = Inr (be16_at (Slice xs sp) 6)"
    using Uint16_of_Slice [of 0 xs sp] Uint16_of_Slice [of 2 xs sp]
      Uint16_of_Slice [of 4 xs sp] Uint16_of_Slice [of 6 xs sp]
    by simp_all
  with False show ?thesis
    by (simp add: ParseUDPHeader_def len_def UDPHeaderLen_def andThen_def)
qed

text \<open>
  Claim C5. For every non-\<open>nil\<close> buffer of fewer than 8 bytes \<open>ParseUDPHeader\<close> fails
  with \<open>ErrHeaderTooShort\<close> and returns no header; for every buffer of at least 8 bytes
  it returns the four big-endian 16-bit fields at offsets 0, 2, 4, 6 as source port,
  destination port, length and checksum, with no error. The bytes
  \<open>00 35 00 35 00 10 00 00\<close> decode to 53, 53, 16, 0. The function is a function of the
  buffer alone and returns nothing but the pair, so it has no side effect.
\<close>

theorem ParseUDPHeader_decodes:
  "(length xs < 8 \<longrightarrow> ParseUDPHeader (Slice xs sp) = Inr (None, Some ErrHeaderTooShort)) \<and>
   (8 \<le> length xs \<longrightarrow>
      ParseUDPHeader (Slice xs sp) =
        Inr (Some \<lparr>SourcePort = uint (xs ! 0) * 256 + uint (xs ! 1),
                   DestinationPort = uint (xs ! 2) * 256 + uint (xs ! 3),
                   Length = uint (xs ! 4) * 256 + uint (xs ! 5),
                   Checksum = uint (xs ! 6) * 256 + uint (xs ! 7)\<rparr>, None)) \<and>
   ParseUDPHeader (Slice [0x00, 0x35, 0x00, 0x35, 0x00, 0x10, 0x00, 0x00] []) =
     Inr (Some \<lparr>SourcePort = 53, DestinationPort = 53, Length = 16, Checksum = 0\<rparr>, None)"
  by (simp add: ParseUDPHeader_Slice be16_at_def byte_at_def)

text \<open>Claim C5 at a 3-byte buffer and at a 9-byte buffer.\<close>

theorem ParseUDPHeader_decodes_witness:
  "ParseUDPHeader (Slice [0x12, 0x34, 0x56] [0x78]) = Inr (None, Some ErrHeaderTooShort) \<and>
   ParseUDPHeader (Slice [0x12, 0x34, 0x00, 0x50, 0x00, 0x09, 0xab, 0xcd, 0x21] []) =
     Inr (Some \<lparr>SourcePort = 4660, DestinationPort = 80, Length = 9, Checksum = 43981\<rparr>, None)"
  using ParseUDPHeader_decodes [of "[0x12, 0x34, 0x56]" "[0x78]"]
    ParseUDPHeader_decodes [of "[0x12, 0x34, 0x00, 0x50, 0x00, 0x09, 0xab, 0xcd, 0x21]" "[]"]
  by simp

text \<open>
  Claim C3 says that an empty buffer fails with \<open>ErrNilHeader\<close> like a \<open>nil\<close> one. The
  code tests \<open>b == nil\<close> only: an empty buffer that is not \<open>nil\<close> reaches the length
  test and fails with \<open>ErrHeaderTooShort\<close>.
\<close>

theorem ParseUDPHeader_empty_counterexample:
  "ParseUDPHeader (Slice [] []) = Inr (None, Some ErrHeaderTooShort) \<and>
   ParseUDPHeader (Slice [] []) \<noteq> Inr (None, Some ErrNilHeader)"
  by (simp add: ParseUDPHeader_Slice)

text \<open>
  Claim C3, amended. \<open>ParseUDPHeader\<close> fails with \<open>ErrNilHeader\<close> for the \<open>nil\<close>
  buffer and with \<open>ErrHeaderTooShort\<close> for every empty buffer that is not \<open>nil\<close>
  (whatever its capacity); in both cases it returns no header.
\<close>

theorem ParseUDPHeader_nil_or_empty:
  "ParseUDPHeader NilSlice = Inr (None, Some ErrNilHeader) \<and>
   ParseUDPHeader (Slice [] sp) = Inr (None, Some ErrHeaderTooShort)"
  by (simp add: ParseUDPHeader_Slice) (simp add: ParseUDPHeader_def)

section \<open>The read paths\<close>

text \<open>
  Claim C9. When the receive call returns an error \<open>e\<close>, both read paths, and the
  dispatching \<open>readfrom\<close>, return that same \<open>e\<close> with \<open>n = -1\<close>, no IP header, no UDP
  header and a \<open>nil\<close> payload, whatever the buffer holds and whatever count came with
  the error.
\<close>

theorem receive_error_propagated:
  "readFromIpv4 (Some hv) (n, Some e) b = Inr (- 1, None, None, NilSlice, Some e) \<and>
   readFromIpv6 (Some hv) (n, Some e) b = Inr (- 1, None, None, NilSlice, Some e) \<and>
   readfrom (Some hv) (n, Some e) b = Inr (- 1, None, None, NilSlice, Some e)"
  by (simp add: readFromIpv4_def readFromIpv6_def readfrom_def ok_def deref_def andThen_def)

text \<open>
  Claim C6. In the IPv4 path, when the first byte of the buffer is not \<open>0x45\<close> the call
  fails with \<open>ErrNotIpv4\<close> and returns the \<open>n\<close> of the receive call, with no header and
  no payload. This holds for every \<open>n\<close> and every buffer length from 1 on, so the test
  comes before the length check and before any decoding.
\<close>

theorem readFromIpv4_NotIpv4:
  "0 < length xs \<Longrightarrow> xs ! 0 \<noteq> 0x45 \<Longrightarrow>
   readFromIpv4 (Some hv) (n, None) (Slice xs sp) = Inr (n, None, None, NilSlice, Some ErrNotIpv4)"
  by (simp add: readFromIpv4_def deref_def andThen_def index_Slice_0)

text \<open>Claim C6 at a 3-byte frame that starts with \<open>0x46\<close>.\<close>

theorem readFromIpv4_NotIpv4_witness:
  "readFromIpv4 (Some \<lparr>fd = 3, sa = SockaddrInet4 53 [10, 0, 0, 1], isIpv4 = True\<rparr>) (3, None)
     (Slice [0x46, 0x00, 0x00] [0x00]) = Inr (3, None, None, NilSlice, Some ErrNotIpv4)"
  using readFromIpv4_NotIpv4 [of "[0x46, 0x00, 0x00]"
      "\<lparr>fd = 3, sa = SockaddrInet4 53 [10, 0, 0, 1], isIpv4 = True\<rparr>" 3 "[0x00]"]
  by simp

section \<open>The external decoders on a buffer\<close>

lemma be16_at_drop:
  "k + i + 1 < length xs \<Longrightarrow> be16_at (Slice (drop k xs) sp) i = be16_at (Slice xs sq) (k + i)"
  by (simp add: be16_at_def byte_at_def add.assoc)

lemma ipv4_ParseHeader_Slice:
  assumes "20 \<le> length xs" and "xs ! 0 = 0x45"
  shows "\<exists>h. ipv4_ParseHeader (Slice xs sp) = Inr h \<and> ipv4_TotalLen h = be16_at (Slice xs sp) 2"
  using assms by (simp add: ipv4_ParseHeader_def len_def ipv4_HeaderLen_def Let_def)

lemma ipv4_ParseHeader_short:
  "length xs < 20 \<Longrightarrow> ipv4_ParseHeader (Slice xs sp) = Inl ipv4_errHeaderTooShort"
  by (simp add: ipv4_ParseHeader_def len_def ipv4_HeaderLen_def)

lemma ipv6_ParseHeader_Slice:
  assumes "40 \<le> length xs"
  shows "\<exists>h. ipv6_ParseHeader (Slice xs sp) = Inr h \<and> ipv6_PayloadLen h = be16_at (Slice xs sp) 4"
  using assms by (simp add: ipv6_ParseHeader_def len_def ipv6_HeaderLen_def)

section \<open>The IPv4 path on a frame that passes every check\<close>

text \<open>
  With a first byte \<open>0x45\<close>, \<open>n \<ge> 28\<close>, a buffer of at least 28 bytes and a declared
  total length of at least 28, every step of \<open>readFromIpv4\<close> succeeds and the result is
  the one below; \<open>pl\<close> is the payload length the closure computes.
\<close>

lemma readFromIpv4_passed:
  assumes len: "28 \<le> length xs" and ver: "xs ! 0 = 0x45" and n: "28 \<le> n"
    and h: "ipv4_ParseHeader (Slice xs sp) = Inr h"
    and tl: "28 \<le> ipv4_TotalLen h"
    and port: "sa hv = SockaddrInet4 port addr"
    and pl: "pl = min (ipv4_TotalLen h) (int (length xs)) - 28"
  shows "readFromIpv4 (Some hv) (n, None) (Slice xs sp) =
           Inr (n, Some \<lparr>Ipv4Header = Some h, Ipv6Header = None\<rparr>,
                Some \<lparr>SourcePort = be16_at (Slice xs sp) 20,
                      DestinationPort = be16_at (Slice xs sp) 22,
                      Length = be16_at (Slice xs sp) 24,
                      Checksum = be16_at (Slice xs sp) 26\<rparr>,
                Slice (take (nat pl) (drop 28 (xs @ sp))) (drop (nat (28 + pl)) (xs @ sp)),
                if port \<noteq> be16_at (Slice xs sp) 22 then Some ErrNotDestPort else None)"
proof -
  have ne: "0 < length xs"
    using len by linarith
  have b0: "index (Slice xs sp) 0 = Inr 0x45"
    using ver index_Slice_0 [OF ne, of sp] by simp
  have b20: "slice_from (Slice xs sp) 20 = Inr (Slice (drop 20 xs) sp)"
    using len by (simp add: slice_from_def len_def)
  have udp: "ParseUDPHeader (Slice (drop 20 xs) sp) =
      Inr (Some \<lparr>SourcePort = be16_at (Slice xs sp) 20,
                      DestinationPort = be16_at (Slice xs sp) 22,
                      Length = be16_at (Slice xs sp) 24,
                      Checksum = be16_at (Slice xs sp) 26\<rparr>, None)"
    using len be16_at_drop [of 20 0 xs sp sp] be16_at_drop [of 20 2 xs sp sp]
      be16_at_drop [of 20 4 xs sp sp] be16_at_drop [of 20 6 xs sp sp]
    by (simp add: ParseUDPHeader_Slice)
  have plen: "payloadlen (ipv4_TotalLen h) (len (Slice xs sp)) 28 = pl"
    by (simp add: payloadlen_def len_def pl min_def)
  have pl0: "0 \<le> pl" and plb: "28 + pl \<le> int (length xs)"
    using tl len pl by simp_all
  have pb: "slice_range (Slice xs sp) 28 (28 + pl) =
      Inr (Slice (take (nat pl) (drop 28 (xs @ sp))) (drop (nat (28 + pl)) (xs @ sp)))"
    using pl0 plb by (simp add: slice_range_def cap_def)
  show ?thesis
    using n by (simp add: readFromIpv4_def deref_def andThen_def b0 UDPHeaderLen_def h b20 udp
        plen pb port)
qed


section \<open>The IPv6 path after both headers are decoded\<close>

text \<open>
  With a first byte \<open>0x60\<close> and a buffer of at least 48 bytes both decoders succeed, and
  what is left of \<open>readFromIpv6\<close> is the length comparison, the payload slice and the
  port comparison.
\<close>

lemma readFromIpv6_decoded:
  assumes len: "48 \<le> length xs" and ver: "xs ! 0 = 0x60"
    and h: "ipv6_ParseHeader (Slice xs sp) = Inr h"
  shows "readFromIpv6 (Some hv) (n, None) (Slice xs sp) =
           (if n \<noteq> 40 + ipv6_PayloadLen h
            then Inr (n, Some \<lparr>Ipv4Header = None, Ipv6Header = Some h\<rparr>, None, NilSlice,
                      Some ErrPayloadLen)
            else
              andThen (slice_range (Slice xs sp) 48 n) (\<lambda>pb.
              andThen (Inet6_Port (sa hv)) (\<lambda>rcvport.
                Inr (n, Some \<lparr>Ipv4Header = None, Ipv6Header = Some h\<rparr>,
                     Some \<lparr>SourcePort = be16_at (Slice xs sp) 40,
                           DestinationPort = be16_at (Slice xs sp) 42,
                           Length = be16_at (Slice xs sp) 44,
                           Checksum = be16_at (Slice xs sp) 46\<rparr>,
                     pb,
                     if rcvport \<noteq> be16_at (Slice xs sp) 42 then Some ErrNotDestPort else None))))"
proof -
  have ne: "0 < length xs"
    using len by linarith
  have b0: "index (Slice xs sp) 0 = Inr 0x60"
    using ver index_Slice_0 [OF ne, of sp] by simp
  have b40: "slice_from (Slice xs sp) 40 = Inr (Slice (drop 40 xs) sp)"
    using len by (simp add: slice_from_def len_def)
  have udp: "ParseUDPHeader (Slice (drop 40 xs) sp) =
      Inr (Some \<lparr>SourcePort = be16_at (Slice xs sp) 40,
                      DestinationPort = be16_at (Slice xs sp) 42,
                      Length = be16_at (Slice xs sp) 44,
                      Checksum = be16_at (Slice xs sp) 46\<rparr>, None)"
    using len be16_at_drop [of 40 0 xs sp sp] be16_at_drop [of 40 2 xs sp sp]
      be16_at_drop [of 40 4 xs sp sp] be16_at_drop [of 40 6 xs sp sp]
    by (simp add: ParseUDPHeader_Slice)
  show ?thesis
    by (simp add: readFromIpv6_def deref_def andThen_def b0 UDPHeaderLen_def ipv6_HeaderLen_def
        h b40 udp split: sum.splits)
qed

lemma take_drop_visible:
  "k + m \<le> length xs \<Longrightarrow> take m (drop k (xs @ sp)) = take m (drop k xs)"
  by simp

text \<open>
  For a buffer that starts with \<open>0x45\<close>, the IP header and the UDP header both decode
  exactly when the buffer holds at least 28 bytes.
\<close>

lemma ipv4_checks_iff:
  assumes "0 < length xs" and "xs ! 0 = 0x45"
  shows "((\<exists>h. ipv4_ParseHeader (Slice xs sp) = Inr h) \<and>
          (\<exists>u. ParseUDPHeader (Slice (drop 20 xs) sp) = Inr (Some u, None)))
         = (28 \<le> length xs)"
proof (cases "20 \<le> length xs")
  case True
  then have "\<exists>h. ipv4_ParseHeader (Slice xs sp) = Inr h"
    using ipv4_ParseHeader_Slice [of xs sp] assms(2) by blast
  moreover have "(\<exists>u. ParseUDPHeader (Slice (drop 20 xs) sp) = Inr (Some u, None))
                 = (28 \<le> length xs)"
    by (auto simp: ParseUDPHeader_Slice)
  ultimately show ?thesis
    by simp
next
  case False
  then show ?thesis
    by (simp add: ipv4_ParseHeader_short)
qed

text \<open>
  Claim C1, amended. In the IPv4 path, for every frame that passes the version check
  (first byte \<open>0x45\<close>), the length check (\<open>n \<ge> 28\<close>), the IP header decoding (result
  \<open>h\<close>) and the UDP header decoding (buffer of at least 28 bytes), whose declared total
  length is at least 28 and of which at least \<open>min (TotalLen, len(b))\<close> bytes were
  received, read by a reader bound to an IPv4 address: the payload length the code
  computes equals \<open>min (TotalLen, n, len(b)) - 28\<close>; it is not negative; header and
  payload together stay within the length of the buffer and within the \<open>n\<close> bytes
  received; and the payload returned is \<open>b[28 : 28 + payloadlen]\<close>. Nothing is said of
  a frame of which fewer than \<open>min (TotalLen, len(b))\<close> bytes were received.
\<close>

theorem readFromIpv4_payload:
  assumes "28 \<le> length xs" and "xs ! 0 = 0x45" and "28 \<le> n"
    and "ipv4_ParseHeader (Slice xs sp) = Inr h"
    and "28 \<le> ipv4_TotalLen h"
    and "min (ipv4_TotalLen h) (len (Slice xs sp)) \<le> n"
    and "sa hv = SockaddrInet4 port addr"
  shows "payloadlen (ipv4_TotalLen h) (len (Slice xs sp)) 28 =
           min (min (ipv4_TotalLen h) n) (len (Slice xs sp)) - 28 \<and>
         0 \<le> payloadlen (ipv4_TotalLen h) (len (Slice xs sp)) 28 \<and>
         28 + payloadlen (ipv4_TotalLen h) (len (Slice xs sp)) 28 \<le> len (Slice xs sp) \<and>
         28 + payloadlen (ipv4_TotalLen h) (len (Slice xs sp)) 28 \<le> n \<and>
         (\<exists>uh e.
            readFromIpv4 (Some hv) (n, None) (Slice xs sp) =
              Inr (n, Some \<lparr>Ipv4Header = Some h, Ipv6Header = None\<rparr>, Some uh,
                   Slice (take (nat (payloadlen (ipv4_TotalLen h) (len (Slice xs sp)) 28))
                            (drop 28 xs))
                         (drop (nat (28 + payloadlen (ipv4_TotalLen h) (len (Slice xs sp)) 28))
                            (xs @ sp)),
                   e))"
proof -
  define pl where "pl = min (ipv4_TotalLen h) (int (length xs)) - 28"
  have plen: "payloadlen (ipv4_TotalLen h) (len (Slice xs sp)) 28 = pl"
    by (simp add: payloadlen_def len_def pl_def min_def)
  have pl0: "0 \<le> pl" and plb: "28 + pl \<le> int (length xs)"
    using assms(1,5) by (simp_all add: pl_def)
  have pln: "28 + pl \<le> n"
    using assms(6) by (simp add: pl_def len_def)
  have clamp: "pl = min (min (ipv4_TotalLen h) n) (int (length xs)) - 28"
    using assms(6) unfolding pl_def len_def by auto
  have vis: "take (nat pl) (drop 28 (xs @ sp)) = take (nat pl) (drop 28 xs)"
    using pl0 plb by (intro take_drop_visible) linarith
  from readFromIpv4_passed [OF assms(1,2,3,4,5,7) pl_def, unfolded vis]
  have "\<exists>uh e.
          readFromIpv4 (Some hv) (n, None) (Slice xs sp) =
            Inr (n, Some \<lparr>Ipv4Header = Some h, Ipv6Header = None\<rparr>, Some uh,
                 Slice (take (nat pl) (drop 28 xs)) (drop (nat (28 + pl)) (xs @ sp)), e)"
    by blast
  then show ?thesis
    unfolding plen using pl0 plb pln clamp by (simp add: len_def)
qed

text \<open>
  Claim C1, amended, at a 30-byte frame with declared total length 30 in a 32-byte
  buffer (two payload bytes, the last two bytes of the buffer left out), and at a 40-byte
  datagram with declared total length 40 received into a 30-byte buffer (the two payload
  bytes the buffer holds).
\<close>

theorem readFromIpv4_payload_witness:
  "payloadlen 30 32 28 = 2 \<and>
   (\<exists>uh e.
      readFromIpv4 (Some \<lparr>fd = 3, sa = SockaddrInet4 53 [10, 0, 0, 2], isIpv4 = True\<rparr>) (30, None) (Slice
       [0x45, 0x00, 0x00, 0x1e, 0x00, 0x00, 0x00, 0x00, 0x40, 0x11, 0x00, 0x00,
        10, 0, 0, 1, 10, 0, 0, 2,
        0x30, 0x39, 0x00, 0x35, 0x00, 0x0a, 0x00, 0x00, 0xaa, 0xbb, 0xcc, 0xdd] []) =
        Inr (30, Some \<lparr>Ipv4Header = Some \<lparr>ipv4_Version = 4, ipv4_Len = 20, ipv4_TOS = 0, ipv4_TotalLen = 30,
        ipv4_ID = 0, ipv4_Flags = 0, ipv4_FragOff = 0, ipv4_TTL = 64,
        ipv4_Protocol = 17, ipv4_Checksum = 0,
        ipv4_Src = net_IPv4 10 0 0 1, ipv4_Dst = net_IPv4 10 0 0 2,
        ipv4_Options = NilSlice\<rparr>, Ipv6Header = None\<rparr>, Some uh,
             Slice [0xaa, 0xbb] [0xcc, 0xdd], e)) \<and>
   payloadlen 40 30 28 = 2 \<and>
   (\<exists>uh e.
      readFromIpv4 (Some \<lparr>fd = 3, sa = SockaddrInet4 53 [10, 0, 0, 2], isIpv4 = True\<rparr>) (40, None) (Slice
       [0x45, 0x00, 0x00, 0x28, 0x00, 0x00, 0x00, 0x00, 0x40, 0x11, 0x00, 0x00,
        10, 0, 0, 1, 10, 0, 0, 2,
        0x30, 0x39, 0x00, 0x35, 0x00, 0x14, 0x00, 0x00, 0xaa, 0xbb] []) =
        Inr (40, Some \<lparr>Ipv4Header = Some \<lparr>ipv4_Version = 4, ipv4_Len = 20, ipv4_TOS = 0, ipv4_TotalLen = 40,
        ipv4_ID = 0, ipv4_Flags = 0, ipv4_FragOff = 0, ipv4_TTL = 64,
        ipv4_Protocol = 17, ipv4_Checksum = 0,
        ipv4_Src = net_IPv4 10 0 0 1, ipv4_Dst = net_IPv4 10 0 0 2,
        ipv4_Options = NilSlice\<rparr>, Ipv6Header = None\<rparr>, Some uh,
             Slice [0xaa, 0xbb] [], e))"
  using readFromIpv4_payload [of
      "[0x45, 0x00, 0x00, 0x1e, 0x00, 0x00, 0x00, 0x00, 0x40, 0x11, 0x00, 0x00,
        10, 0, 0, 1, 10, 0, 0, 2,
        0x30, 0x39, 0x00, 0x35, 0x00, 0x0a, 0x00, 0x00, 0xaa, 0xbb, 0xcc, 0xdd]" 30 "[]"
      "\<lparr>ipv4_Version = 4, ipv4_Len = 20, ipv4_TOS = 0, ipv4_TotalLen = 30,
        ipv4_ID = 0, ipv4_Flags = 0, ipv4_FragOff = 0, ipv4_TTL = 64,
        ipv4_Protocol = 17, ipv4_Checksum = 0,
        ipv4_Src = net_IPv4 10 0 0 1, ipv4_Dst = net_IPv4 10 0 0 2,
        ipv4_Options = NilSlice\<rparr>" "\<lparr>fd = 3, sa = SockaddrInet4 53 [10, 0, 0, 2], isIpv4 = True\<rparr>" 53 "[10, 0, 0, 2]"]
    readFromIpv4_payload [of
      "[0x45, 0x00, 0x00, 0x28, 0x00, 0x00, 0x00, 0x00, 0x40, 0x11, 0x00, 0x00,
        10, 0, 0, 1, 10, 0, 0, 2,
        0x30, 0x39, 0x00, 0x35, 0x00, 0x14, 0x00, 0x00, 0xaa, 0xbb]" 40 "[]"
      "\<lparr>ipv4_Version = 4, ipv4_Len = 20, ipv4_TOS = 0, ipv4_TotalLen = 40,
        ipv4_ID = 0, ipv4_Flags = 0, ipv4_FragOff = 0, ipv4_TTL = 64,
        ipv4_Protocol = 17, ipv4_Checksum = 0,
        ipv4_Src = net_IPv4 10 0 0 1, ipv4_Dst = net_IPv4 10 0 0 2,
        ipv4_Options = NilSlice\<rparr>" "\<lparr>fd = 3, sa = SockaddrInet4 53 [10, 0, 0, 2], isIpv4 = True\<rparr>" 53 "[10, 0, 0, 2]"]
  by (simp add: ipv4_ParseHeader_def ipv4_HeaderLen_def be16_at_def byte_at_def len_def
      payloadlen_def)

text \<open>
  Claim C1 as stated fails three times. A 40-byte datagram with declared total length
  40, received into a 30-byte buffer (so \<open>n = 40\<close>): the code clamps to the length of the
  buffer and returns a payload of \<open>30 - 28 = 2\<close> bytes, not \<open>min (40, 40) - 28 = 12\<close>,
  which the buffer could not hold. A frame with declared total length 20: the payload
  length is \<open>20 - 28 = -8\<close> and the slice expression \<open>b[28:20]\<close> panics. And a 30-byte
  frame with declared total length 40 in a 40-byte buffer: the code does not look at
  \<open>n\<close> and returns 12 bytes, 10 of them never received, not \<open>min (40, 30) - 28 = 2\<close>.
\<close>

theorem readFromIpv4_payload_counterexample:
  "readFromIpv4 (Some \<lparr>fd = 3, sa = SockaddrInet4 53 [10, 0, 0, 2], isIpv4 = True\<rparr>) (40, None) (Slice
       [0x45, 0x00, 0x00, 0x28, 0x00, 0x00, 0x00, 0x00, 0x40, 0x11, 0x00, 0x00,
        10, 0, 0, 1, 10, 0, 0, 2,
        0x30, 0x39, 0x00, 0x35, 0x00, 0x14, 0x00, 0x00, 0xaa, 0xbb] []) =
     Inr (40, Some \<lparr>Ipv4Header = Some \<lparr>ipv4_Version = 4, ipv4_Len = 20, ipv4_TOS = 0, ipv4_TotalLen = 40,
        ipv4_ID = 0, ipv4_Flags = 0, ipv4_FragOff = 0, ipv4_TTL = 64,
        ipv4_Protocol = 17, ipv4_Checksum = 0,
        ipv4_Src = net_IPv4 10 0 0 1, ipv4_Dst = net_IPv4 10 0 0 2,
        ipv4_Options = NilSlice\<rparr>, Ipv6Header = None\<rparr>,
          Some \<lparr>SourcePort = 12345, DestinationPort = 53, Length = 20, Checksum = 0\<rparr>,
          Slice [0xaa, 0xbb] [], None) \<and>
   len (Slice [0xaa, 0xbb] []) \<noteq> min 40 40 - 28 \<and>
   readFromIpv4 (Some \<lparr>fd = 3, sa = SockaddrInet4 53 [10, 0, 0, 2], isIpv4 = True\<rparr>) (30, None) (Slice
       [0x45, 0x00, 0x00, 0x14, 0x00, 0x00, 0x00, 0x00, 0x40, 0x11, 0x00, 0x00,
        10, 0, 0, 1, 10, 0, 0, 2,
        0x30, 0x39, 0x00, 0x35, 0x00, 0x14, 0x00, 0x00, 0xaa, 0xbb] []) = Inl SliceBoundsOutOfRange \<and>
   readFromIpv4 (Some \<lparr>fd = 3, sa = SockaddrInet4 53 [10, 0, 0, 2], isIpv4 = True\<rparr>) (30, None) (Slice
       [0x45, 0x00, 0x00, 0x28, 0x00, 0x00, 0x00, 0x00, 0x40, 0x11, 0x00, 0x00,
        10, 0, 0, 1, 10, 0, 0, 2,
        0x30, 0x39, 0x00, 0x35, 0x00, 0x14, 0x00, 0x00, 0xaa, 0xbb,
        0x77, 0x77, 0x77, 0x77, 0x77, 0x77, 0x77, 0x77, 0x77, 0x77] []) =
     Inr (30, Some \<lparr>Ipv4Header = Some \<lparr>ipv4_Version = 4, ipv4_Len = 20, ipv4_TOS = 0, ipv4_TotalLen = 40,
        ipv4_ID = 0, ipv4_Flags = 0, ipv4_FragOff = 0, ipv4_TTL = 64,
        ipv4_Protocol = 17, ipv4_Checksum = 0,
        ipv4_Src = net_IPv4 10 0 0 1, ipv4_Dst = net_IPv4 10 0 0 2,
        ipv4_Options = NilSlice\<rparr>, Ipv6Header = None\<rparr>,
          Some \<lparr>SourcePort = 12345, DestinationPort = 53, Length = 20, Checksum = 0\<rparr>,
          Slice [0xaa, 0xbb, 0x77, 0x77, 0x77, 0x77, 0x77, 0x77, 0x77, 0x77, 0x77, 0x77] [],
          None) \<and>
   len (Slice [0xaa, 0xbb, 0x77, 0x77, 0x77, 0x77, 0x77, 0x77, 0x77, 0x77, 0x77, 0x77] [])
     \<noteq> min 40 30 - 28"
  by (simp add: readFromIpv4_def deref_def andThen_def index_def len_def cap_def UDPHeaderLen_def
      ipv4_ParseHeader_def ipv4_HeaderLen_def be16_at_def byte_at_def slice_from_def
      ParseUDPHeader_Slice payloadlen_def slice_range_def)

text \<open>
  Claim C7 as stated fails twice. Where the UDP header cannot be decoded: a 44-byte
  frame in a 44-byte buffer that declares a payload of 10 bytes has
  \<open>n = 44 \<noteq> 40 + 10\<close>, but the UDP decoding comes first and the call fails with
  \<open>ErrHeaderTooShort\<close>, not \<open>ErrPayloadLen\<close>. And where the lengths agree below 48: a
  44-byte frame in a 48-byte buffer that declares a payload of 4 bytes has
  \<open>n = 44 = 40 + 4\<close>, and the slice expression \<open>b[48:44]\<close> panics.
\<close>

theorem readFromIpv6_mismatch_counterexample:
  "readFromIpv6 (Some \<lparr>fd = 3, sa = SockaddrInet6 53 0 [0, 0, 0, 0, 0, 0, 0, 0, 0, 0, 0, 0, 0, 0, 0, 2], isIpv4 = False\<rparr>) (44, None) (Slice
        [0x60, 0x00, 0x00, 0x00, 0x00, 0x0a, 0x11, 0x40,
         0, 0, 0, 0, 0, 0, 0, 0, 0, 0, 0, 0, 0, 0, 0, 1,
         0, 0, 0, 0, 0, 0, 0, 0, 0, 0, 0, 0, 0, 0, 0, 2,
         0x30, 0x39, 0x00, 0x35] []) =
     Inr (44,
          Some \<lparr>Ipv4Header = None,
                Ipv6Header =
                  Some \<lparr>ipv6_Version = 6, ipv6_TrafficClass = 0, ipv6_FlowLabel = 0,
                         ipv6_PayloadLen = 10, ipv6_NextHeader = 17, ipv6_HopLimit = 64,
                         ipv6_Src = [0, 0, 0, 0, 0, 0, 0, 0, 0, 0, 0, 0, 0, 0, 0, 1],
                         ipv6_Dst = [0, 0, 0, 0, 0, 0, 0, 0, 0, 0, 0, 0, 0, 0, 0, 2]\<rparr>\<rparr>,
          None, NilSlice, Some ErrHeaderTooShort) \<and>
   (44::int) \<noteq> 40 + 10 \<and>
   readFromIpv6 (Some \<lparr>fd = 3, sa = SockaddrInet6 53 0 [0, 0, 0, 0, 0, 0, 0, 0, 0, 0, 0, 0, 0, 0, 0, 2], isIpv4 = False\<rparr>) (44, None) (Slice
        [0x60, 0x00, 0x00, 0x00, 0x00, 0x04, 0x11, 0x40,
         0, 0, 0, 0, 0, 0, 0, 0, 0, 0, 0, 0, 0, 0, 0, 1,
         0, 0, 0, 0, 0, 0, 0, 0, 0, 0, 0, 0, 0, 0, 0, 2,
         0x30, 0x39, 0x00, 0x35, 0x00, 0x00, 0x00, 0x00] []) = Inl SliceBoundsOutOfRange \<and>
   (44::int) = 40 + 4"
  by (simp add: readFromIpv6_def deref_def andThen_def index_def len_def cap_def UDPHeaderLen_def
      ipv6_ParseHeader_def ipv6_HeaderLen_def be16_at_def byte_at_def slice_from_def
      ParseUDPHeader_Slice slice_range_def)


text \<open>
  Claim C7, amended. In the IPv6 path, for every frame that passes the version check
  (first byte \<open>0x60\<close>) in a buffer of at least 48 bytes, so that the IP header decodes to
  some \<open>h\<close> and the UDP header decodes too: when \<open>n\<close> differs from
  \<open>40 + PayloadLen\<close>, in either direction, the call fails with \<open>ErrPayloadLen\<close> and
  returns \<open>h\<close>, no UDP header and no payload; when they are equal, \<open>n\<close> lies between 48
  and the capacity of the buffer, and the reader is bound to an IPv6 address, the payload
  returned is \<open>b[48:n]\<close>.
\<close>

theorem readFromIpv6_length_check:
  assumes "48 \<le> length xs" and "xs ! 0 = 0x60"
  shows "\<exists>h. ipv6_ParseHeader (Slice xs sp) = Inr h \<and>
           (n \<noteq> 40 + ipv6_PayloadLen h \<longrightarrow>
              readFromIpv6 (Some hv) (n, None) (Slice xs sp) =
                Inr (n, Some \<lparr>Ipv4Header = None, Ipv6Header = Some h\<rparr>, None, NilSlice,
                     Some ErrPayloadLen)) \<and>
           (n = 40 + ipv6_PayloadLen h \<and> 48 \<le> n \<and> n \<le> cap (Slice xs sp) \<and>
            sa hv = SockaddrInet6 port zone addr \<longrightarrow>
              (\<exists>uh e. readFromIpv6 (Some hv) (n, None) (Slice xs sp) =
                 Inr (n, Some \<lparr>Ipv4Header = None, Ipv6Header = Some h\<rparr>, Some uh,
                      Slice (take (nat (n - 48)) (drop 48 (xs @ sp))) (drop (nat n) (xs @ sp)),
                      e)))"
proof -
  obtain h where h: "ipv6_ParseHeader (Slice xs sp) = Inr h"
    using ipv6_ParseHeader_Slice [of xs sp] assms(1) by auto
  note r = readFromIpv6_decoded [OF assms h, of hv n]
  have "n \<noteq> 40 + ipv6_PayloadLen h \<longrightarrow>
          readFromIpv6 (Some hv) (n, None) (Slice xs sp) =
            Inr (n, Some \<lparr>Ipv4Header = None, Ipv6Header = Some h\<rparr>, None, NilSlice,
                 Some ErrPayloadLen)"
    using r by simp
  moreover have "n = 40 + ipv6_PayloadLen h \<and> 48 \<le> n \<and> n \<le> cap (Slice xs sp) \<and>
            sa hv = SockaddrInet6 port zone addr \<longrightarrow>
              (\<exists>uh e. readFromIpv6 (Some hv) (n, None) (Slice xs sp) =
                 Inr (n, Some \<lparr>Ipv4Header = None, Ipv6Header = Some h\<rparr>, Some uh,
                      Slice (take (nat (n - 48)) (drop 48 (xs @ sp))) (drop (nat n) (xs @ sp)),
                      e))"
  proof (intro impI, elim conjE)
    assume eq: "n = 40 + ipv6_PayloadLen h" and lo: "48 \<le> n" and hi: "n \<le> cap (Slice xs sp)"
      and bound: "sa hv = SockaddrInet6 port zone addr"
    have pb: "slice_range (Slice xs sp) 48 n =
        Inr (Slice (take (nat (n - 48)) (drop 48 (xs @ sp))) (drop (nat n) (xs @ sp)))"
      using lo hi by (simp add: slice_range_def)
    have "readFromIpv6 (Some hv) (n, None) (Slice xs sp) =
            Inr (n, Some \<lparr>Ipv4Header = None, Ipv6Header = Some h\<rparr>,
                 Some \<lparr>SourcePort = be16_at (Slice xs sp) 40,
                       DestinationPort = be16_at (Slice xs sp) 42,
                       Length = be16_at (Slice xs sp) 44,
                       Checksum = be16_at (Slice xs sp) 46\<rparr>,
                 Slice (take (nat (n - 48)) (drop 48 (xs @ sp))) (drop (nat n) (xs @ sp)),
                 if port \<noteq> be16_at (Slice xs sp) 42 then Some ErrNotDestPort else None)"
      unfolding r pb bound using eq by (simp add: andThen_def)
    then show "\<exists>uh e. readFromIpv6 (Some hv) (n, None) (Slice xs sp) =
                 Inr (n, Some \<lparr>Ipv4Header = None, Ipv6Header = Some h\<rparr>, Some uh,
                      Slice (take (nat (n - 48)) (drop 48 (xs @ sp))) (drop (nat n) (xs @ sp)),
                      e)"
      by blast
  qed
  ultimately show ?thesis
    using h by blast
qed

text \<open>
  Claim C7, amended, at a 50-byte frame that declares a payload of 10 bytes: \<open>n = 44\<close>
  and \<open>n = 60\<close> fail with \<open>ErrPayloadLen\<close>, \<open>n = 50\<close> returns the two payload bytes.
\<close>

theorem readFromIpv6_length_check_witness:
  "\<exists>h. ipv6_ParseHeader (Slice [0x60, 0x00, 0x00, 0x00, 0x00, 0x0a, 0x11, 0x40,
      0, 0, 0, 0, 0, 0, 0, 0, 0, 0, 0, 0, 0, 0, 0, 1,
      0, 0, 0, 0, 0, 0, 0, 0, 0, 0, 0, 0, 0, 0, 0, 2,
      0x30, 0x39, 0x00, 0x35, 0x00, 0x0a, 0x00, 0x00, 0xaa, 0xbb] []) = Inr h \<and>
     readFromIpv6 (Some \<lparr>fd = 3, sa = SockaddrInet6 53 0 [0, 0, 0, 0, 0, 0, 0, 0, 0, 0, 0, 0, 0, 0, 0, 2], isIpv4 = False\<rparr>) (44, None) (Slice [0x60, 0x00, 0x00, 0x00, 0x00, 0x0a, 0x11, 0x40,
      0, 0, 0, 0, 0, 0, 0, 0, 0, 0, 0, 0, 0, 0, 0, 1,
      0, 0, 0, 0, 0, 0, 0, 0, 0, 0, 0, 0, 0, 0, 0, 2,
      0x30, 0x39, 0x00, 0x35, 0x00, 0x0a, 0x00, 0x00, 0xaa, 0xbb] []) =
       Inr (44, Some \<lparr>Ipv4Header = None, Ipv6Header = Some h\<rparr>, None, NilSlice,
            Some ErrPayloadLen) \<and>
     readFromIpv6 (Some \<lparr>fd = 3, sa = SockaddrInet6 53 0 [0, 0, 0, 0, 0, 0, 0, 0, 0, 0, 0, 0, 0, 0, 0, 2], isIpv4 = False\<rparr>) (60, None) (Slice [0x60, 0x00, 0x00, 0x00, 0x00, 0x0a, 0x11, 0x40,
      0, 0, 0, 0, 0, 0, 0, 0, 0, 0, 0, 0, 0, 0, 0, 1,
      0, 0, 0, 0, 0, 0, 0, 0, 0, 0, 0, 0, 0, 0, 0, 2,
      0x30, 0x39, 0x00, 0x35, 0x00, 0x0a, 0x00, 0x00, 0xaa, 0xbb] []) =
       Inr (60, Some \<lparr>Ipv4Header = None, Ipv6Header = Some h\<rparr>, None, NilSlice,
            Some ErrPayloadLen) \<and>
     (\<exists>uh e. readFromIpv6 (Some \<lparr>fd = 3, sa = SockaddrInet6 53 0 [0, 0, 0, 0, 0, 0, 0, 0, 0, 0, 0, 0, 0, 0, 0, 2], isIpv4 = False\<rparr>) (50, None) (Slice [0x60, 0x00, 0x00, 0x00, 0x00, 0x0a, 0x11, 0x40,
      0, 0, 0, 0, 0, 0, 0, 0, 0, 0, 0, 0, 0, 0, 0, 1,
      0, 0, 0, 0, 0, 0, 0, 0, 0, 0, 0, 0, 0, 0, 0, 2,
      0x30, 0x39, 0x00, 0x35, 0x00, 0x0a, 0x00, 0x00, 0xaa, 0xbb] []) =
        Inr (50, Some \<lparr>Ipv4Header = None, Ipv6Header = Some h\<rparr>, Some uh,
             Slice [0xaa, 0xbb] [], e))"
  using readFromIpv6_length_check [of "[0x60, 0x00, 0x00, 0x00, 0x00, 0x0a, 0x11, 0x40,
      0, 0, 0, 0, 0, 0, 0, 0, 0, 0, 0, 0, 0, 0, 0, 1,
      0, 0, 0, 0, 0, 0, 0, 0, 0, 0, 0, 0, 0, 0, 0, 2,
      0x30, 0x39, 0x00, 0x35, 0x00, 0x0a, 0x00, 0x00, 0xaa, 0xbb]" "[]" 44 "\<lparr>fd = 3, sa = SockaddrInet6 53 0 [0, 0, 0, 0, 0, 0, 0, 0, 0, 0, 0, 0, 0, 0, 0, 2], isIpv4 = False\<rparr>"]
    readFromIpv6_length_check [of "[0x60, 0x00, 0x00, 0x00, 0x00, 0x0a, 0x11, 0x40,
      0, 0, 0, 0, 0, 0, 0, 0, 0, 0, 0, 0, 0, 0, 0, 1,
      0, 0, 0, 0, 0, 0, 0, 0, 0, 0, 0, 0, 0, 0, 0, 2,
      0x30, 0x39, 0x00, 0x35, 0x00, 0x0a, 0x00, 0x00, 0xaa, 0xbb]" "[]" 60 "\<lparr>fd = 3, sa = SockaddrInet6 53 0 [0, 0, 0, 0, 0, 0, 0, 0, 0, 0, 0, 0, 0, 0, 0, 2], isIpv4 = False\<rparr>"]
    readFromIpv6_length_check [of "[0x60, 0x00, 0x00, 0x00, 0x00, 0x0a, 0x11, 0x40,
      0, 0, 0, 0, 0, 0, 0, 0, 0, 0, 0, 0, 0, 0, 0, 1,
      0, 0, 0, 0, 0, 0, 0, 0, 0, 0, 0, 0, 0, 0, 0, 2,
      0x30, 0x39, 0x00, 0x35, 0x00, 0x0a, 0x00, 0x00, 0xaa, 0xbb]" "[]" 50 "\<lparr>fd = 3, sa = SockaddrInet6 53 0 [0, 0, 0, 0, 0, 0, 0, 0, 0, 0, 0, 0, 0, 0, 0, 2], isIpv4 = False\<rparr>" 53 0
      "[0, 0, 0, 0, 0, 0, 0, 0, 0, 0, 0, 0, 0, 0, 0, 2]"]
  by (simp add: ipv6_ParseHeader_def ipv6_HeaderLen_def len_def cap_def be16_at_def byte_at_def)

section \<open>The destination port filter\<close>

text \<open>
  On the frames the version tests accept, the filter works as described. An IPv4 frame
  with first byte \<open>0x45\<close>, \<open>n \<ge> 28\<close>, at least 28 bytes in the buffer and a declared
  total length of at least 28, read by a reader bound to an IPv4 address with port
  \<open>port\<close>: the call returns the decoded IP header, the decoded UDP header and the
  payload slice, with \<open>ErrNotDestPort\<close> when \<open>port\<close> differs from the destination port
  of the UDP header and with no error when they are equal. The same for an IPv6 frame
  with first byte \<open>0x60\<close>, at least 48 bytes in the buffer and \<open>m = 40 + PayloadLen\<close>
  between 48 and the capacity of the buffer, read by a reader bound to an IPv6 address.
\<close>

lemma destination_port_filter_accepted:
  "(28 \<le> length xs \<and> xs ! 0 = 0x45 \<and> 28 \<le> n \<and> 28 \<le> be16_at (Slice xs sp) 2 \<and>
    sa hv = SockaddrInet4 port addr \<longrightarrow>
      (\<exists>h pb. ipv4_ParseHeader (Slice xs sp) = Inr h \<and>
         slice_range (Slice xs sp) 28 (min (ipv4_TotalLen h) (len (Slice xs sp))) = Inr pb \<and>
         readFromIpv4 (Some hv) (n, None) (Slice xs sp) =
           Inr (n, Some \<lparr>Ipv4Header = Some h, Ipv6Header = None\<rparr>,
                Some \<lparr>SourcePort = be16_at (Slice xs sp) 20,
                      DestinationPort = be16_at (Slice xs sp) 22,
                      Length = be16_at (Slice xs sp) 24,
                      Checksum = be16_at (Slice xs sp) 26\<rparr>,
                pb,
                if port \<noteq> be16_at (Slice xs sp) 22 then Some ErrNotDestPort else None))) \<and>
   (48 \<le> length ys \<and> ys ! 0 = 0x60 \<and> m = 40 + be16_at (Slice ys sq) 4 \<and> 48 \<le> m \<and>
    m \<le> cap (Slice ys sq) \<and> sa hw = SockaddrInet6 port6 zone addr6 \<longrightarrow>
      (\<exists>h pb. ipv6_ParseHeader (Slice ys sq) = Inr h \<and>
         slice_range (Slice ys sq) 48 m = Inr pb \<and>
         readFromIpv6 (Some hw) (m, None) (Slice ys sq) =
           Inr (m, Some \<lparr>Ipv4Header = None, Ipv6Header = Some h\<rparr>,
                Some \<lparr>SourcePort = be16_at (Slice ys sq) 40,
                      DestinationPort = be16_at (Slice ys sq) 42,
                      Length = be16_at (Slice ys sq) 44,
                      Checksum = be16_at (Slice ys sq) 46\<rparr>,
                pb,
                if port6 \<noteq> be16_at (Slice ys sq) 42 then Some ErrNotDestPort else None)))"
proof (intro conjI impI)
  assume a: "28 \<le> length xs \<and> xs ! 0 = 0x45 \<and> 28 \<le> n \<and> 28 \<le> be16_at (Slice xs sp) 2 \<and>
    sa hv = SockaddrInet4 port addr"
  then obtain h where h: "ipv4_ParseHeader (Slice xs sp) = Inr h"
    and tl: "ipv4_TotalLen h = be16_at (Slice xs sp) 2"
    using ipv4_ParseHeader_Slice [of xs sp] by auto
  define pl where "pl = min (ipv4_TotalLen h) (int (length xs)) - 28"
  have tl28: "28 \<le> ipv4_TotalLen h"
    using a tl by simp
  have pl0: "0 \<le> pl" and plb: "28 + pl \<le> int (length xs)"
    using a tl28 by (simp_all add: pl_def)
  have hi: "min (ipv4_TotalLen h) (len (Slice xs sp)) = 28 + pl"
    by (simp add: pl_def len_def)
  have pb: "slice_range (Slice xs sp) 28 (28 + pl) =
      Inr (Slice (take (nat pl) (drop 28 (xs @ sp))) (drop (nat (28 + pl)) (xs @ sp)))"
    using pl0 plb by (simp add: slice_range_def cap_def)
  from a have "28 \<le> length xs" "xs ! 0 = 0x45" "28 \<le> n" "sa hv = SockaddrInet4 port addr"
    by simp_all
  from readFromIpv4_passed [OF this(1,2,3) h tl28 this(4) pl_def]
  show "\<exists>h pb. ipv4_ParseHeader (Slice xs sp) = Inr h \<and>
         slice_range (Slice xs sp) 28 (min (ipv4_TotalLen h) (len (Slice xs sp))) = Inr pb \<and>
         readFromIpv4 (Some hv) (n, None) (Slice xs sp) =
           Inr (n, Some \<lparr>Ipv4Header = Some h, Ipv6Header = None\<rparr>,
                Some \<lparr>SourcePort = be16_at (Slice xs sp) 20,
                      DestinationPort = be16_at (Slice xs sp) 22,
                      Length = be16_at (Slice xs sp) 24,
                      Checksum = be16_at (Slice xs sp) 26\<rparr>,
                pb,
                if port \<noteq> be16_at (Slice xs sp) 22 then Some ErrNotDestPort else None)"
    using h hi pb by simp
next
  assume a: "48 \<le> length ys \<and> ys ! 0 = 0x60 \<and> m = 40 + be16_at (Slice ys sq) 4 \<and> 48 \<le> m \<and>
    m \<le> cap (Slice ys sq) \<and> sa hw = SockaddrInet6 port6 zone addr6"
  then obtain h where h: "ipv6_ParseHeader (Slice ys sq) = Inr h"
    and pl: "ipv6_PayloadLen h = be16_at (Slice ys sq) 4"
    using ipv6_ParseHeader_Slice [of ys sq] by auto
  from a have l: "48 \<le> length ys" and v: "ys ! 0 = 0x60"
    by simp_all
  have pb: "slice_range (Slice ys sq) 48 m =
      Inr (Slice (take (nat (m - 48)) (drop 48 (ys @ sq))) (drop (nat m) (ys @ sq)))"
    using a by (simp add: slice_range_def)
  show "\<exists>h pb. ipv6_ParseHeader (Slice ys sq) = Inr h \<and>
         slice_range (Slice ys sq) 48 m = Inr pb \<and>
         readFromIpv6 (Some hw) (m, None) (Slice ys sq) =
           Inr (m, Some \<lparr>Ipv4Header = None, Ipv6Header = Some h\<rparr>,
                Some \<lparr>SourcePort = be16_at (Slice ys sq) 40,
                      DestinationPort = be16_at (Slice ys sq) 42,
                      Length = be16_at (Slice ys sq) 44,
                      Checksum = be16_at (Slice ys sq) 46\<rparr>,
                pb,
                if port6 \<noteq> be16_at (Slice ys sq) 42 then Some ErrNotDestPort else None)"
    using readFromIpv6_decoded [OF l v h, of hw m] a h pl pb
    by (simp add: andThen_def)
qed

text \<open>
  An IPv4 frame for port 80 read by a reader bound to port 53 (rejected, with all three
  structures returned) and an IPv6 frame for port 53 (accepted).
\<close>

lemma destination_port_filter_accepted_example:
  "readFromIpv4 (Some \<lparr>fd = 3, sa = SockaddrInet4 53 [10, 0, 0, 2], isIpv4 = True\<rparr>) (32, None) (Slice [0x45, 0x00, 0x00, 0x20, 0x00, 0x00, 0x00, 0x00, 0x40, 0x11, 0x00, 0x00,
      10, 0, 0, 1, 10, 0, 0, 2,
      0x30, 0x39, 0x00, 0x50, 0x00, 0x0c, 0x00, 0x00, 0xaa, 0xbb, 0xcc, 0xdd] []) =
     Inr (32, Some \<lparr>Ipv4Header = Some \<lparr>ipv4_Version = 4, ipv4_Len = 20, ipv4_TOS = 0, ipv4_TotalLen = 32,
                       ipv4_ID = 0, ipv4_Flags = 0, ipv4_FragOff = 0, ipv4_TTL = 64,
                       ipv4_Protocol = 17, ipv4_Checksum = 0,
                       ipv4_Src = net_IPv4 10 0 0 1, ipv4_Dst = net_IPv4 10 0 0 2,
                       ipv4_Options = NilSlice\<rparr>, Ipv6Header = None\<rparr>,
          Some \<lparr>SourcePort = 12345, DestinationPort = 80, Length = 12, Checksum = 0\<rparr>,
          Slice [0xaa, 0xbb, 0xcc, 0xdd] [], Some ErrNotDestPort) \<and>
   readFromIpv6 (Some \<lparr>fd = 3, sa = SockaddrInet6 53 0 [0, 0, 0, 0, 0, 0, 0, 0, 0, 0, 0, 0, 0, 0, 0, 2], isIpv4 = False\<rparr>) (50, None) (Slice [0x60, 0x00, 0x00, 0x00, 0x00, 0x0a, 0x11, 0x40,
      0, 0, 0, 0, 0, 0, 0, 0, 0, 0, 0, 0, 0, 0, 0, 1,
      0, 0, 0, 0, 0, 0, 0, 0, 0, 0, 0, 0, 0, 0, 0, 2,
      0x30, 0x39, 0x00, 0x35, 0x00, 0x0a, 0x00, 0x00, 0xaa, 0xbb] []) =
     Inr (50, Some \<lparr>Ipv4Header = None, Ipv6Header = Some \<lparr>ipv6_Version = 6, ipv6_TrafficClass = 0, ipv6_FlowLabel = 0,
                       ipv6_PayloadLen = 10, ipv6_NextHeader = 17, ipv6_HopLimit = 64,
                       ipv6_Src = [0, 0, 0, 0, 0, 0, 0, 0, 0, 0, 0, 0, 0, 0, 0, 1],
                       ipv6_Dst = [0, 0, 0, 0, 0, 0, 0, 0, 0, 0, 0, 0, 0, 0, 0, 2]\<rparr>\<rparr>,
          Some \<lparr>SourcePort = 12345, DestinationPort = 53, Length = 10, Checksum = 0\<rparr>,
          Slice [0xaa, 0xbb] [], None)"
  using destination_port_filter_accepted [of "[0x45, 0x00, 0x00, 0x20, 0x00, 0x00, 0x00, 0x00, 0x40, 0x11, 0x00, 0x00,
      10, 0, 0, 1, 10, 0, 0, 2,
      0x30, 0x39, 0x00, 0x50, 0x00, 0x0c, 0x00, 0x00, 0xaa, 0xbb, 0xcc, 0xdd]" 32 "[]" "\<lparr>fd = 3, sa = SockaddrInet4 53 [10, 0, 0, 2], isIpv4 = True\<rparr>" 53 "[10, 0, 0, 2]"
      "[0x60, 0x00, 0x00, 0x00, 0x00, 0x0a, 0x11, 0x40,
      0, 0, 0, 0, 0, 0, 0, 0, 0, 0, 0, 0, 0, 0, 0, 1,
      0, 0, 0, 0, 0, 0, 0, 0, 0, 0, 0, 0, 0, 0, 0, 2,
      0x30, 0x39, 0x00, 0x35, 0x00, 0x0a, 0x00, 0x00, 0xaa, 0xbb]" 50 "[]" "\<lparr>fd = 3, sa = SockaddrInet6 53 0 [0, 0, 0, 0, 0, 0, 0, 0, 0, 0, 0, 0, 0, 0, 0, 2], isIpv4 = False\<rparr>" 53 0 "[0, 0, 0, 0, 0, 0, 0, 0, 0, 0, 0, 0, 0, 0, 0, 2]"]
  by (simp add: ipv4_ParseHeader_def ipv4_HeaderLen_def ipv6_ParseHeader_def ipv6_HeaderLen_def
      len_def cap_def be16_at_def byte_at_def slice_range_def)

section \<open>Inputs on which the code departs from its description\<close>

text \<open>
  Claim C2. The IPv6 path compares the whole first byte with \<open>0x60\<close>. A frame whose
  first byte is \<open>0x6b\<close> (version 6, traffic class \<open>0xb8\<close>) has the top nibble 6 and is
  rejected with \<open>ErrNotIpv6\<close>.
\<close>

theorem readFromIpv6_version6_rejected:
  "drop_bit 4 (0x6b :: byte) = 6 \<and>
   readFromIpv6 (Some \<lparr>fd = 3, sa = SockaddrInet6 53 0 [0, 0, 0, 0, 0, 0, 0, 0, 0, 0, 0, 0, 0, 0, 0, 2], isIpv4 = False\<rparr>) (48, None)
     (Slice
       [0x6b, 0x80, 0x00, 0x00, 0x00, 0x08, 0x11, 0x40,
        0, 0, 0, 0, 0, 0, 0, 0, 0, 0, 0, 0, 0, 0, 0, 1,
        0, 0, 0, 0, 0, 0, 0, 0, 0, 0, 0, 0, 0, 0, 0, 2,
        0x30, 0x39, 0x00, 0x35, 0x00, 0x08, 0x00, 0x00] []) =
     Inr (48, None, None, NilSlice, Some ErrNotIpv6)"
  by (simp add: readFromIpv6_def deref_def andThen_def index_def len_def drop_bit_eq_div)

text \<open>
  Claim C8. A correctly formed IPv6 frame with first byte \<open>0x6b\<close> (version 6, traffic
  class \<open>0xb8\<close>), 50 bytes long with a declared payload of 10 bytes, read in full by a
  reader bound to port 53, is rejected by the version test with \<open>ErrNotIpv6\<close> and no
  structure is returned: when it is addressed to port 53, where the description has the
  three structures and no error, and when it is addressed to port 80, where the
  description has the three structures and \<open>ErrNotDestPort\<close>.
\<close>

theorem destination_port_filter_version6_rejected:
  "drop_bit 4 (0x6b :: byte) = 6 \<and>
   readFromIpv6 (Some \<lparr>fd = 3, sa = SockaddrInet6 53 0 [0, 0, 0, 0, 0, 0, 0, 0, 0, 0, 0, 0, 0, 0, 0, 2], isIpv4 = False\<rparr>) (50, None) (Slice
       [0x6b, 0x80, 0x00, 0x00, 0x00, 0x0a, 0x11, 0x40,
        0, 0, 0, 0, 0, 0, 0, 0, 0, 0, 0, 0, 0, 0, 0, 1,
        0, 0, 0, 0, 0, 0, 0, 0, 0, 0, 0, 0, 0, 0, 0, 2,
        0x30, 0x39, 0x00, 0x35, 0x00, 0x0a, 0x00, 0x00, 0xaa, 0xbb] []) = Inr (50, None, None, NilSlice, Some ErrNotIpv6) \<and>
   readFromIpv6 (Some \<lparr>fd = 3, sa = SockaddrInet6 53 0 [0, 0, 0, 0, 0, 0, 0, 0, 0, 0, 0, 0, 0, 0, 0, 2], isIpv4 = False\<rparr>) (50, None) (Slice
       [0x6b, 0x80, 0x00, 0x00, 0x00, 0x0a, 0x11, 0x40,
        0, 0, 0, 0, 0, 0, 0, 0, 0, 0, 0, 0, 0, 0, 0, 1,
        0, 0, 0, 0, 0, 0, 0, 0, 0, 0, 0, 0, 0, 0, 0, 2,
        0x30, 0x39, 0x00, 0x50, 0x00, 0x0a, 0x00, 0x00, 0xaa, 0xbb] []) = Inr (50, None, None, NilSlice, Some ErrNotIpv6)"
  by (simp add: readFromIpv6_def deref_def andThen_def index_def len_def drop_bit_eq_div)

text \<open>
  Claim C10. The read paths do not always fail with an error when an access is out of
  range; they panic: on an empty buffer, at \<open>b[0]\<close>, in both paths; on a 40-byte IPv6
  frame without payload received into a 48-byte buffer, at \<open>b[48:40]\<close>, after a UDP
  header has been decoded from 8 bytes that were not received; on an IPv4 frame whose
  declared total length is 27, at \<open>b[28:27]\<close>.
\<close>

theorem read_paths_panic:
  "readFromIpv4 (Some \<lparr>fd = 3, sa = SockaddrInet4 53 [10, 0, 0, 2], isIpv4 = True\<rparr>) (0, None) (Slice [] []) = Inl IndexOutOfRange \<and>
   readFromIpv6 (Some \<lparr>fd = 3, sa = SockaddrInet6 53 0 [0, 0, 0, 0, 0, 0, 0, 0, 0, 0, 0, 0, 0, 0, 0, 2], isIpv4 = False\<rparr>) (0, None) (Slice [] []) = Inl IndexOutOfRange \<and>
   readFromIpv6 (Some \<lparr>fd = 3, sa = SockaddrInet6 53 0 [0, 0, 0, 0, 0, 0, 0, 0, 0, 0, 0, 0, 0, 0, 0, 2], isIpv4 = False\<rparr>) (40, None)
     (Slice
       [0x60, 0x00, 0x00, 0x00, 0x00, 0x00, 0x3b, 0x40,
        0, 0, 0, 0, 0, 0, 0, 0, 0, 0, 0, 0, 0, 0, 0, 1,
        0, 0, 0, 0, 0, 0, 0, 0, 0, 0, 0, 0, 0, 0, 0, 2,
        0, 0, 0, 0, 0, 0, 0, 0] []) = Inl SliceBoundsOutOfRange \<and>
   readFromIpv4 (Some \<lparr>fd = 3, sa = SockaddrInet4 53 [10, 0, 0, 2], isIpv4 = True\<rparr>) (28, None)
     (Slice
       [0x45, 0x00, 0x00, 0x1b, 0x00, 0x00, 0x00, 0x00, 0x40, 0x11, 0x00, 0x00,
        10, 0, 0, 1, 10, 0, 0, 2,
        0x30, 0x39, 0x00, 0x35, 0x00, 0x08, 0x00, 0x00] []) = Inl SliceBoundsOutOfRange"
  by (simp add: readFromIpv4_def readFromIpv6_def deref_def andThen_def index_def len_def cap_def
      UDPHeaderLen_def ipv4_ParseHeader_def ipv4_HeaderLen_def ipv6_ParseHeader_def
      ipv6_HeaderLen_def be16_at_def byte_at_def slice_from_def ParseUDPHeader_Slice
      payloadlen_def slice_range_def)

text \<open>
  Claim C4. \<open>Close\<close> on a \<open>nil\<close> \<open>*Conn\<close> (what \<open>NewConn\<close> returns when it fails)
  panics; on no \<open>Conn\<close> does it return \<open>ErrInvalidConn\<close>; on a zero-valued \<open>Conn\<close>,
  never bound to a socket, it closes descriptor 0. On a bound \<open>Conn\<close> the first call
  releases the descriptor and a second call fails with \<open>EBADF\<close>.
\<close>

theorem Close_never_InvalidConn:
  "Close None fds = (Inl NilDereference, fds) \<and>
   fst (Close c fds) \<noteq> Inr (Some ErrInvalidConn) \<and>
   Close (Some \<lparr>Conn_fd = 0, Conn_sa = SockaddrOther, Conn_isIpv4 = False,
                Conn_handler = \<lparr>fd = 0, sa = SockaddrOther, isIpv4 = False\<rparr>\<rparr>) {0, 1, 2} =
     (Inr None, {1, 2}) \<and>
   Close (Some \<lparr>Conn_fd = 3, Conn_sa = SockaddrInet4 53 [10, 0, 0, 2], Conn_isIpv4 = True,
                Conn_handler = \<lparr>fd = 3, sa = SockaddrInet4 53 [10, 0, 0, 2], isIpv4 = True\<rparr>\<rparr>) {0, 1, 2, 3} =
     (Inr None, {0, 1, 2}) \<and>
   Close (Some \<lparr>Conn_fd = 3, Conn_sa = SockaddrInet4 53 [10, 0, 0, 2], Conn_isIpv4 = True,
                Conn_handler = \<lparr>fd = 3, sa = SockaddrInet4 53 [10, 0, 0, 2], isIpv4 = True\<rparr>\<rparr>) {0, 1, 2} =
     (Inr (Some (Errno EBADF)), {0, 1, 2})"
proof -
  have never: "fst (Close c fds) \<noteq> Inr (Some ErrInvalidConn)"
    by (cases c) (simp_all add: Close_def ok_def syscall_Close_def)
  have d0: "{0, 1, 2} - {0} = {1, 2 :: int}" and d3: "{0, 1, 2, 3} - {3} = {0, 1, 2 :: int}"
    by auto
  show ?thesis
    using never by (simp add: Close_def ok_def syscall_Close_def d0 d3)
qed

end
